theory Spec2Isabelle
  imports Complex_Main "HOL-Library.Multiset" "HOL-Library.Product_Lexorder" "HOL-Library.Sublist"
begin

section \<open>The relational store\<close>

text \<open>
  The schema of the store is the DDL of the repository (\<^verbatim>\<open>CREATE TABLE analyses\<close>,
  \<^verbatim>\<open>CREATE TABLE tweets\<close>). A column without \<^verbatim>\<open>NOT NULL\<close> holds an
  \<open>option\<close>; a \<^verbatim>\<open>PRIMARY KEY\<close> column is never null. Timestamps are counted in
  microseconds, \<^verbatim>\<open>NUMERIC\<close> values are rationals, the integer columns are
  integers already in the range of their column type. The column \<^verbatim>\<open>text\<close> of
  \<^verbatim>\<open>tweets\<close> is the field \<open>tweet_text\<close>.
\<close>

record analysis =
  analysis_id :: int
  username :: string
  analysis_timestamp :: "int option"
  positive_sentiment_percentage :: "rat option"
  neutral_sentiment_percentage :: "rat option"
  negative_sentiment_percentage :: "rat option"
  tweet_count :: "int option"
  query_parameters :: "string option"

record tweet =
  tweet_id :: int
  analysis_id :: "int option"
  type :: "string option"
  username :: "string option"
  tweet_text :: "string option"
  created_at :: "int option"
  sentiment :: "string option"
  sentiment_score :: "rat option"

record database =
  analyses :: "analysis list"
  tweets :: "tweet list"

text \<open>The error a grouping query can raise.\<close>

datatype sql_error = DivisionByZero

text \<open>
  The period of \<^verbatim>\<open>date_trunc\<close>: the queries use \<^verbatim>\<open>'month'\<close> and
  \<^verbatim>\<open>'WEEK'\<close>, the \<^verbatim>\<open>period_type\<close> column of
  \<^verbatim>\<open>sentiment_timeseries\<close> also allows \<^verbatim>\<open>'day'\<close>.
\<close>

datatype period_type = Day | Week | Month

section \<open>The grouping queries\<close>

text \<open>
  \<^verbatim>\<open>FROM analyses AS a JOIN tweets AS t ON a.analysis_id = t.analysis_id
  WHERE a.username = u\<close>: the inner join keeps a tweet once for every analysis row of
  the user it refers to; a tweet with a null \<^verbatim>\<open>analysis_id\<close> joins nothing. Only
  columns of \<open>t\<close> are selected, so the joined row is represented by its tweet.
\<close>

definition joined :: "string \<Rightarrow> analysis list \<Rightarrow> tweet list \<Rightarrow> tweet list" where
  "joined u as ts =
     concat (map (\<lambda>a. filter (\<lambda>t. tweet.analysis_id t = Some (analysis.analysis_id a)) ts)
                 (filter (\<lambda>a. analysis.username a = u) as))"

text \<open>
  \<^verbatim>\<open>date_trunc(p, t.created_at)\<close>. The truncation of a timestamp is the database
  engine's (it depends on the session's time zone), so it is a parameter \<open>trunc\<close>; on
  a null timestamp the result is null.
\<close>

definition period_of :: "(int \<Rightarrow> int) \<Rightarrow> tweet \<Rightarrow> int option" where
  "period_of trunc t = map_option trunc (created_at t)"

text \<open>
  The engine's truncation in a session whose time zone is a fixed offset from UTC.
  A timestamp is an instant, in microseconds since 1970-01-01 00:00 UTC; \<open>offset\<close> is
  the zone's offset east of UTC, in microseconds. The instant is read as a local time
  of the zone, the local time is cut to the start of its day, of its week (the Monday)
  or of its month, and the result is the instant at which the zone has that local time.
  Day 0 is 1970-01-01, a Thursday; \<open>day_of_month d\<close> is the day of the month, from 1,
  of day \<open>d\<close> in the Gregorian calendar.
\<close>

definition day_of_month :: "int \<Rightarrow> int" where
  "day_of_month d =
     (let z = d + 719468;
          doe = z mod 146097;
          yoe = (doe - doe div 1460 + doe div 36524 - doe div 146096) div 365;
          doy = doe - (365 * yoe + yoe div 4 - yoe div 100);
          mp = (5 * doy + 2) div 153
      in doy - (153 * mp + 2) div 5 + 1)"

definition fixed_offset_trunc :: "int \<Rightarrow> period_type \<Rightarrow> int \<Rightarrow> int" where
  "fixed_offset_trunc offset p t =
     (let d = (t + offset) div 86400000000;
          start = (case p of
                     Day \<Rightarrow> d
                   | Week \<Rightarrow> d - (d + 3) mod 7
                   | Month \<Rightarrow> d - (day_of_month d - 1))
      in start * 86400000000 - offset)"

text \<open>\<^verbatim>\<open>SUM(CASE WHEN t.sentiment = l THEN 1 ELSE 0 END)\<close> over the rows of a group:
  a null sentiment is not equal to any label and takes the \<^verbatim>\<open>ELSE\<close> branch.\<close>

definition sum_case :: "string \<Rightarrow> tweet list \<Rightarrow> int" where
  "sum_case l g = sum_list (map (\<lambda>t. if sentiment t = Some l then 1 else 0) g)"

text \<open>\<^verbatim>\<open>COUNT(*)\<close> over the rows of a group.\<close>

definition count_star :: "tweet list \<Rightarrow> int" where
  "count_star g = int (length g)"

text \<open>
  The nearest integer to \<open>a / b\<close>, a tie going away from zero: the rounding of a
  \<^verbatim>\<open>NUMERIC\<close> quotient at its last kept digit.
\<close>

definition div_round :: "int \<Rightarrow> int \<Rightarrow> int" where
  "div_round a b = sgn a * sgn b * ((2 * \<bar>a\<bar> + \<bar>b\<bar>) div (2 * \<bar>b\<bar>))"

text \<open>
  \<^verbatim>\<open>x::decimal / y\<close>: division by zero is an error of the statement; otherwise the
  quotient is rounded to \<open>scale x y\<close> digits after the decimal point. The number of
  digits is chosen by the database engine from the operands, so \<open>scale\<close> is a
  parameter. \<open>rounded_quotient s x y\<close> is the quotient kept to \<open>s\<close> digits.
\<close>

definition rounded_quotient :: "nat \<Rightarrow> int \<Rightarrow> int \<Rightarrow> rat" where
  "rounded_quotient s x y = of_int (div_round (x * 10 ^ s) y) / 10 ^ s"

definition numeric_div :: "(int \<Rightarrow> int \<Rightarrow> nat) \<Rightarrow> int \<Rightarrow> int \<Rightarrow> sql_error + rat" where
  "numeric_div scale x y =
     (if y = 0 then Inl DivisionByZero else Inr (rounded_quotient (scale x y) x y))"

text \<open>The output row of the weekly query.\<close>

record time_series_data =
  week_start :: "int option"
  total_tweets :: int
  positive_ratio :: rat
  neutral_ratio :: rat
  negative_ratio :: rat

text \<open>The select list of the weekly query on one group \<open>g\<close> with key \<open>k\<close>.\<close>

definition weekly_row ::
  "(int \<Rightarrow> int \<Rightarrow> nat) \<Rightarrow> int option \<Rightarrow> tweet list \<Rightarrow> sql_error + time_series_data" where
  "weekly_row scale k g =
     (case numeric_div scale (sum_case ''positive'' g) (count_star g) of
        Inl e \<Rightarrow> Inl e
      | Inr p \<Rightarrow>
     (case numeric_div scale (sum_case ''neutral'' g) (count_star g) of
        Inl e \<Rightarrow> Inl e
      | Inr n \<Rightarrow>
     (case numeric_div scale (sum_case ''negative'' g) (count_star g) of
        Inl e \<Rightarrow> Inl e
      | Inr m \<Rightarrow>
          Inr \<lparr>week_start = k, total_tweets = count_star g, positive_ratio = p,
               neutral_ratio = n, negative_ratio = m\<rparr>)))"

text \<open>
  The select list of the monthly query, which has no \<^verbatim>\<open>COUNT(*)\<close> column: the row
  is (\<open>month_start\<close>, \<open>positive_ratio\<close>, \<open>neutral_ratio\<close>, \<open>negative_ratio\<close>).
\<close>

definition monthly_row ::
  "(int \<Rightarrow> int \<Rightarrow> nat) \<Rightarrow> int option \<Rightarrow> tweet list \<Rightarrow> sql_error + (int option \<times> rat \<times> rat \<times> rat)" where
  "monthly_row scale k g =
     (case numeric_div scale (sum_case ''positive'' g) (count_star g) of
        Inl e \<Rightarrow> Inl e
      | Inr p \<Rightarrow>
     (case numeric_div scale (sum_case ''neutral'' g) (count_star g) of
        Inl e \<Rightarrow> Inl e
      | Inr n \<Rightarrow>
     (case numeric_div scale (sum_case ''negative'' g) (count_star g) of
        Inl e \<Rightarrow> Inl e
      | Inr m \<Rightarrow> Inr (k, p, n, m))))"

text \<open>
  \<^verbatim>\<open>ORDER BY 1\<close>: ascending, and a null key sorts after every timestamp (the
  engine's default for an ascending order).
\<close>

definition nulls_last :: "int option \<Rightarrow> bool \<times> int" where
  "nulls_last k = (case k of None \<Rightarrow> (True, 0) | Some t \<Rightarrow> (False, t))"

text \<open>The strict order that \<^verbatim>\<open>ORDER BY 1\<close> sorts by, written out.\<close>

definition precedes :: "int option \<Rightarrow> int option \<Rightarrow> bool" where
  "precedes a b =
     (case a of
        None \<Rightarrow> False
      | Some x \<Rightarrow> (case b of None \<Rightarrow> True | Some y \<Rightarrow> x < y))"

text \<open>
  \<^verbatim>\<open>GROUP BY 1 ORDER BY 1\<close>: one group for every distinct key among the rows (null
  keys form one group), the groups in the order of their keys.
\<close>

definition group_keys :: "(tweet \<Rightarrow> int option) \<Rightarrow> tweet list \<Rightarrow> int option list" where
  "group_keys key rows = sort_key nulls_last (remdups (map key rows))"

definition group_of :: "(tweet \<Rightarrow> int option) \<Rightarrow> tweet list \<Rightarrow> int option \<Rightarrow> tweet list" where
  "group_of key rows k = filter (\<lambda>t. key t = k) rows"

text \<open>The statement fails as a whole with the first error of a row.\<close>

fun collect :: "('e + 'a) list \<Rightarrow> 'e + 'a list" where
  "collect [] = Inr []"
| "collect (Inl e # rs) = Inl e"
| "collect (Inr x # rs) = (case collect rs of Inl e \<Rightarrow> Inl e | Inr xs \<Rightarrow> Inr (x # xs))"

definition grouped ::
  "(int option \<Rightarrow> tweet list \<Rightarrow> sql_error + 'r) \<Rightarrow> (tweet \<Rightarrow> int option) \<Rightarrow> tweet list
     \<Rightarrow> sql_error + 'r list" where
  "grouped row key rows =
     collect (map (\<lambda>k. row k (group_of key rows k)) (group_keys key rows))"

text \<open>The select list on a group, without the error of a division by zero.\<close>

definition weekly_values ::
  "(int \<Rightarrow> int \<Rightarrow> nat) \<Rightarrow> int option \<Rightarrow> tweet list \<Rightarrow> time_series_data" where
  "weekly_values scale k g =
     \<lparr>week_start = k, total_tweets = count_star g,
      positive_ratio =
        rounded_quotient (scale (sum_case ''positive'' g) (count_star g))
          (sum_case ''positive'' g) (count_star g),
      neutral_ratio =
        rounded_quotient (scale (sum_case ''neutral'' g) (count_star g))
          (sum_case ''neutral'' g) (count_star g),
      negative_ratio =
        rounded_quotient (scale (sum_case ''negative'' g) (count_star g))
          (sum_case ''negative'' g) (count_star g)\<rparr>"

text \<open>A tweet whose sentiment is one of the three labels the queries count.\<close>

definition labelled :: "tweet \<Rightarrow> bool" where
  "labelled t =
     (sentiment t = Some ''positive'' \<or> sentiment t = Some ''neutral''
      \<or> sentiment t = Some ''negative'')"

text \<open>The two queries, for a user name \<open>u\<close>; the source has the literal
  \<^verbatim>\<open>'getgrass_io'\<close>.\<close>

definition weekly_analysis_of ::
  "(int \<Rightarrow> int \<Rightarrow> nat) \<Rightarrow> (period_type \<Rightarrow> int \<Rightarrow> int) \<Rightarrow> string \<Rightarrow> database
     \<Rightarrow> sql_error + time_series_data list" where
  "weekly_analysis_of scale date_trunc u db =
     grouped (weekly_row scale) (period_of (date_trunc Week))
       (joined u (analyses db) (tweets db))"

definition monthly_analysis_of ::
  "(int \<Rightarrow> int \<Rightarrow> nat) \<Rightarrow> (period_type \<Rightarrow> int \<Rightarrow> int) \<Rightarrow> string \<Rightarrow> database
     \<Rightarrow> sql_error + (int option \<times> rat \<times> rat \<times> rat) list" where
  "monthly_analysis_of scale date_trunc u db =
     grouped (monthly_row scale) (period_of (date_trunc Month))
       (joined u (analyses db) (tweets db))"

definition weekly_analysis ::
  "(int \<Rightarrow> int \<Rightarrow> nat) \<Rightarrow> (period_type \<Rightarrow> int \<Rightarrow> int) \<Rightarrow> database
     \<Rightarrow> sql_error + time_series_data list" where
  "weekly_analysis scale date_trunc db = weekly_analysis_of scale date_trunc ''getgrass_io'' db"

definition monthly_analysis ::
  "(int \<Rightarrow> int \<Rightarrow> nat) \<Rightarrow> (period_type \<Rightarrow> int \<Rightarrow> int) \<Rightarrow> database
     \<Rightarrow> sql_error + (int option \<times> rat \<times> rat \<times> rat) list" where
  "monthly_analysis scale date_trunc db = monthly_analysis_of scale date_trunc ''getgrass_io'' db"

section \<open>The report builder\<close>

text \<open>
  Modelled from the spec: \<open>buildReport\<close> and the \<open>ClassifiedItem\<close> it works on.
  The backend that builds the sentiment report is not among the sources; of the report
  only the interface \<^verbatim>\<open>SentimentReport\<close> (a summary of three counts and three
  top lists) is. The definitions follow the algorithm of the specification: count the
  items of each label, partition by label, sort each part by descending score, on equal
  scores the later \<open>createdAt\<close> first, otherwise keeping the input order, and take the
  first \<open>topN\<close>. Scores are rationals: only their order is used.
\<close>

datatype label = Positive | Neutral | Negative

datatype kind = Post | Reply

record classified_item =
  item_id :: string
  subjectHandle :: string
  kind :: kind
  item_text :: string
  createdAt :: int
  label :: label
  score :: rat






record summary =
  positive :: nat
  neutral :: nat
  negative :: nat

record sentiment_report =
  summary :: summary
  topPositive :: "classified_item list"
  topNeutral :: "classified_item list"
  topNegative :: "classified_item list"

text \<open>Modelled from the spec: the partition of the items by label (the report builder
  is not among the sources).\<close>

definition with_label :: "label \<Rightarrow> classified_item list \<Rightarrow> classified_item list" where
  "with_label l items = filter (\<lambda>i. label i = l) items"

text \<open>Modelled from the spec: the sort key of a top list (the report builder is not
  among the sources), descending score, then descending \<open>createdAt\<close>; \<open>sort_key\<close>
  is a stable insertion sort, the pairs are compared lexicographically.\<close>

definition rank_key :: "classified_item \<Rightarrow> rat \<times> int" where
  "rank_key i = (- score i, - createdAt i)"

text \<open>Modelled from the spec: the order of a top list, written out (the report builder
  is not among the sources): a higher score first, and of two equal scores the later
  \<open>createdAt\<close> first.\<close>

definition ranks_before :: "classified_item \<Rightarrow> classified_item \<Rightarrow> bool" where
  "ranks_before a b =
     (score b < score a \<or> (score a = score b \<and> createdAt b \<le> createdAt a))"

text \<open>Modelled from the spec: the first \<open>topN\<close> items of a label in that order (the
  report builder is not among the sources).\<close>

definition top_list :: "nat \<Rightarrow> label \<Rightarrow> classified_item list \<Rightarrow> classified_item list" where
  "top_list topN l items = take topN (sort_key rank_key (with_label l items))"

text \<open>Modelled from the spec: \<open>buildReport\<close> (the report builder is not among the
  sources), the three counts and the three top lists.\<close>

definition buildReport :: "classified_item list \<Rightarrow> nat \<Rightarrow> sentiment_report" where
  "buildReport items topN =
     \<lparr>summary = \<lparr>positive = length (with_label Positive items),
                  neutral = length (with_label Neutral items),
                  negative = length (with_label Negative items)\<rparr>,
      topPositive = top_list topN Positive items,
      topNeutral = top_list topN Neutral items,
      topNegative = top_list topN Negative items\<rparr>"

section \<open>The API client\<close>

text \<open>
  What an \<^verbatim>\<open>async\<close> function throws (its promise is rejected with): the
  \<^verbatim>\<open>Error\<close> the client constructs, or the \<^verbatim>\<open>TypeError\<close> of a failed
  \<^verbatim>\<open>fetch\<close>, or the \<^verbatim>\<open>SyntaxError\<close> of a body that is not JSON.
\<close>

datatype js_error = Error string | TypeError string | SyntaxError string

datatype js_value = Str string | Num int | Obj "(string \<times> js_value) list"

text \<open>The request handed to \<^verbatim>\<open>fetch\<close>; \<open>body\<close> is the value given to
  \<^verbatim>\<open>JSON.stringify\<close>, \<open>request_method\<close> is the option \<^verbatim>\<open>method\<close>. A call
  with the URL alone is a \<^verbatim>\<open>GET\<close> without headers and body.\<close>

record request =
  url :: string
  request_method :: string
  headers :: "(string \<times> string) list"
  body :: "js_value option"

text \<open>Of the response the client reads \<^verbatim>\<open>response.ok\<close> and the outcome of
  \<^verbatim>\<open>response.json()\<close>, which is the parsed body or a rejection.\<close>

record 'j response =
  ok :: bool
  json :: "js_error + 'j"

definition API_BASE_URL :: string where
  "API_BASE_URL = ''http://127.0.0.1:8000/api''"

text \<open>The four requests of the client.\<close>

definition user_tweets_request :: "string \<Rightarrow> request" where
  "user_tweets_request username' =
     \<lparr>url = API_BASE_URL @ ''/user-tweets'', request_method = ''POST'',
      headers = [(''Content-Type'', ''application/json'')],
      body = Some (Obj [(''username'', Str username')])\<rparr>"

definition weekly_analysis_request :: "string \<Rightarrow> request" where
  "weekly_analysis_request username' =
     \<lparr>url = API_BASE_URL @ ''/user-tweets/weekly_or_monthly_analysis/'' @ username',
      request_method = ''GET'', headers = [], body = None\<rparr>"

definition sentiment_reports_request :: "string \<Rightarrow> request" where
  "sentiment_reports_request username' =
     \<lparr>url = API_BASE_URL @ ''/reports/'' @ username',
      request_method = ''GET'', headers = [], body = None\<rparr>"

definition analyze_request :: "string \<Rightarrow> request" where
  "analyze_request username' =
     \<lparr>url = API_BASE_URL @ ''/analyze'', request_method = ''POST'',
      headers = [(''Content-Type'', ''application/json'')],
      body = Some (Obj [(''query'', Str username'), (''max_tweets'', Num 15)])\<rparr>"

text \<open>\<^verbatim>\<open>fetch\<close> is the network: a parameter, which resolves to a response or
  rejects.\<close>

definition getUserTweets :: "(request \<Rightarrow> js_error + 'j response) \<Rightarrow> string \<Rightarrow> js_error + 'j" where
  "getUserTweets fetch username' =
     (case fetch (user_tweets_request username') of
        Inl e \<Rightarrow> Inl e
      | Inr response \<Rightarrow>
          if \<not> ok response then Inl (Error ''Failed to fetch user tweets'')
          else json response)"

definition getWeeklyAnalysis :: "(request \<Rightarrow> js_error + 'j response) \<Rightarrow> string \<Rightarrow> js_error + 'j" where
  "getWeeklyAnalysis fetch username' =
     (case fetch (weekly_analysis_request username') of
        Inl e \<Rightarrow> Inl e
      | Inr response \<Rightarrow>
          if \<not> ok response then Inl (Error ''Failed to fetch weekly analysis'')
          else json response)"

definition getSentimentReports :: "(request \<Rightarrow> js_error + 'j response) \<Rightarrow> string \<Rightarrow> js_error + 'j" where
  "getSentimentReports fetch username' =
     (case fetch (sentiment_reports_request username') of
        Inl e \<Rightarrow> Inl e
      | Inr response \<Rightarrow>
          if \<not> ok response then Inl (Error ''Failed to fetch sentiment reports'')
          else json response)"

definition analyzeTweets :: "(request \<Rightarrow> js_error + 'j response) \<Rightarrow> string \<Rightarrow> js_error + 'j" where
  "analyzeTweets fetch username' =
     (case fetch (analyze_request username') of
        Inl e \<Rightarrow> Inl e
      | Inr response \<Rightarrow>
          if \<not> ok response then Inl (Error ''Failed to analyze tweets'')
          else json response)"

section \<open>Sample data\<close>

text \<open>
  The values used in the examples below: a session in UTC, quotients kept to twenty
  digits, and four tweets of one analysis of the user, written on 2025-01-15 12:00,
  2025-01-06 02:00 (a Monday), 2025-01-07 09:30 and 2025-01-09 18:00 UTC.
\<close>

definition sample_trunc :: "period_type \<Rightarrow> int \<Rightarrow> int" where
  "sample_trunc = fixed_offset_trunc 0"

definition sample_scale :: "int \<Rightarrow> int \<Rightarrow> nat" where
  "sample_scale x y = 20"

definition sample_analysis :: "int \<Rightarrow> string \<Rightarrow> analysis" where
  "sample_analysis i u =
     \<lparr>analysis.analysis_id = i, analysis.username = u, analysis_timestamp = None,
      positive_sentiment_percentage = None, neutral_sentiment_percentage = None,
      negative_sentiment_percentage = None, tweet_count = None, query_parameters = None\<rparr>"

definition sample_tweet :: "int \<Rightarrow> int option \<Rightarrow> string option \<Rightarrow> tweet" where
  "sample_tweet i c s =
     \<lparr>tweet_id = i, analysis_id = Some 1, type = Some ''post'', username = Some ''getgrass_io'',
      tweet_text = Some ''gm'', created_at = c, sentiment = s, sentiment_score = Some (9 / 10)\<rparr>"

definition sample_db :: database where
  "sample_db =
     \<lparr>analyses = [sample_analysis 1 ''getgrass_io''],
      tweets = [sample_tweet 10 (Some 1736942400000000) (Some ''positive''),
                sample_tweet 11 (Some 1736128800000000) (Some ''positive''),
                sample_tweet 12 (Some 1736242200000000) (Some ''neutral''),
                sample_tweet 13 (Some 1736445600000000) (Some ''negative'')]\<rparr>"

definition reordered_db :: database where
  "reordered_db =
     \<lparr>analyses = [sample_analysis 1 ''getgrass_io''],
      tweets = [sample_tweet 13 (Some 1736445600000000) (Some ''negative''),
                sample_tweet 12 (Some 1736242200000000) (Some ''neutral''),
                sample_tweet 10 (Some 1736942400000000) (Some ''positive''),
                sample_tweet 11 (Some 1736128800000000) (Some ''positive'')]\<rparr>"

definition sample_item :: "string \<Rightarrow> label \<Rightarrow> rat \<Rightarrow> int \<Rightarrow> classified_item" where
  "sample_item i l s c =
     \<lparr>item_id = i, subjectHandle = ''getgrass_io'', kind = Post, item_text = ''gm'',
      createdAt = c, label = l, score = s\<rparr>"

text \<open>The items of the specification's scenario: two positive items of score 0.9, of
  day 1 and of day 2, and a negative item of score 0.7.\<close>

definition sample_items :: "classified_item list" where
  "sample_items =
     [sample_item ''a'' Positive (9 / 10) 1, sample_item ''b'' Positive (9 / 10) 2,
      sample_item ''c'' Negative (7 / 10) 1]"



section \<open>Groups and their order\<close>

lemma collect_map_Inr:
  "(\<And>k. k \<in> set ks \<Longrightarrow> f k = Inr (g k)) \<Longrightarrow> collect (map f ks) = Inr (map g ks)"
  by (induction ks) auto

lemma set_group_keys: "set (group_keys key rows) = key ` set rows"
  by (simp add: group_keys_def)

lemma distinct_group_keys: "distinct (group_keys key rows)"
  by (simp add: group_keys_def)

lemma group_keys_Nil: "group_keys key [] = []"
  by (simp add: group_keys_def)

lemma group_of_nonempty:
  "k \<in> set (group_keys key rows) \<Longrightarrow> group_of key rows k \<noteq> []"
  by (auto simp: set_group_keys group_of_def filter_empty_conv)

lemma count_star_pos: "g \<noteq> [] \<Longrightarrow> 1 \<le> count_star g"
  by (cases g) (simp_all add: count_star_def)

lemma inj_nulls_last: "inj nulls_last"
  by (auto simp: inj_on_def nulls_last_def split: option.splits)

lemma nulls_last_less: "nulls_last a < nulls_last b \<longleftrightarrow> precedes a b"
  by (simp add: nulls_last_def precedes_def split: option.splits)

lemma sorted_group_keys: "sorted_wrt precedes (group_keys key rows)"
proof -
  have "sorted (map nulls_last (group_keys key rows))"
    by (simp add: group_keys_def)
  moreover have "distinct (map nulls_last (group_keys key rows))"
    by (simp add: distinct_map distinct_group_keys inj_on_subset[OF inj_nulls_last])
  ultimately have "sorted_wrt (<) (map nulls_last (group_keys key rows))"
    by (simp add: strict_sorted_iff)
  then show ?thesis
    by (simp add: sorted_wrt_map nulls_last_less)
qed

section \<open>The queries never fail\<close>

lemma weekly_row_nonempty: "g \<noteq> [] \<Longrightarrow> weekly_row scale k g = Inr (weekly_values scale k g)"
  using count_star_pos[of g] by (simp add: weekly_row_def numeric_div_def weekly_values_def)

lemma monthly_row_nonempty:
  "g \<noteq> [] \<Longrightarrow> monthly_row scale k g =
     Inr (k, positive_ratio (weekly_values scale k g), neutral_ratio (weekly_values scale k g),
          negative_ratio (weekly_values scale k g))"
  using count_star_pos[of g] by (simp add: monthly_row_def numeric_div_def weekly_values_def)

lemma grouped_weekly:
  "grouped (weekly_row scale) key rows =
     Inr (map (\<lambda>k. weekly_values scale k (group_of key rows k)) (group_keys key rows))"
  unfolding grouped_def
  by (rule collect_map_Inr) (simp add: weekly_row_nonempty group_of_nonempty)

lemma grouped_monthly:
  "grouped (monthly_row scale) key rows =
     Inr (map (\<lambda>k. (k, positive_ratio (weekly_values scale k (group_of key rows k)),
                       neutral_ratio (weekly_values scale k (group_of key rows k)),
                       negative_ratio (weekly_values scale k (group_of key rows k))))
              (group_keys key rows))"
  unfolding grouped_def
  by (rule collect_map_Inr) (simp add: monthly_row_nonempty group_of_nonempty)

lemma week_start_weekly_values: "week_start (weekly_values scale k g) = k"
  by (simp add: weekly_values_def)

lemma total_tweets_weekly_values: "total_tweets (weekly_values scale k g) = count_star g"
  by (simp add: weekly_values_def)

lemma weekly_analysis_of_rows:
  "weekly_analysis_of scale date_trunc u db =
     Inr (map (\<lambda>k. weekly_values scale k
                 (group_of (period_of (date_trunc Week)) (joined u (analyses db) (tweets db)) k))
            (group_keys (period_of (date_trunc Week)) (joined u (analyses db) (tweets db))))"
  by (simp add: weekly_analysis_of_def grouped_weekly)

lemma monthly_analysis_of_keys:
  "\<exists>rows. monthly_analysis_of scale date_trunc u db = Inr rows
     \<and> map fst rows
         = group_keys (period_of (date_trunc Month)) (joined u (analyses db) (tweets db))"
  by (simp add: monthly_analysis_of_def grouped_monthly comp_def)

lemma joined_no_tweets: "joined u as [] = []"
  by (simp add: joined_def)

lemma joined_no_analyses: "joined u [] ts = []"
  by (simp add: joined_def)

section \<open>Rounding\<close>

lemma div_round_nearest:
  assumes "0 \<le> a" "0 < b"
  shows "\<bar>2 * (b * div_round a b) - 2 * a\<bar> \<le> b"
proof -
  define q where "q = (2 * a + b) div (2 * b)"
  define r where "r = (2 * a + b) mod (2 * b)"
  have dr: "div_round a b = sgn a * q"
    using assms by (simp add: div_round_def q_def)
  have eq: "2 * a + b = 2 * b * q + r"
    by (simp add: q_def r_def)
  have r: "0 \<le> r" "r < 2 * b"
    using assms by (simp_all add: r_def)
  show ?thesis
  proof (cases "a = 0")
    case True
    then show ?thesis using assms by (simp add: div_round_def)
  next
    case False
    then have "div_round a b = q" using assms dr by simp
    then have "2 * (b * div_round a b) - 2 * a = b - r"
      using eq by (simp add: algebra_simps)
    then show ?thesis using r by simp
  qed
qed

lemma rounded_quotient_error:
  assumes "0 \<le> x" "0 < y"
  shows "\<bar>rounded_quotient s x y - of_int x / of_int y\<bar> \<le> 1 / (2 * 10 ^ s)"
proof -
  let ?N = "x * 10 ^ s"
  let ?q = "div_round ?N y"
  have "\<bar>2 * (y * ?q) - 2 * ?N\<bar> \<le> y"
    using assms by (intro div_round_nearest) simp_all
  then have "(of_int \<bar>2 * (y * ?q) - 2 * ?N\<bar> :: rat) \<le> of_int y"
    by (simp only: of_int_le_iff)
  then have le: "\<bar>2 * (of_int y * of_int ?q) - 2 * (of_int x * 10 ^ s)\<bar> \<le> (of_int y :: rat)"
    by simp
  have ypos: "(0::rat) < of_int y" using assms by simp
  have "rounded_quotient s x y - of_int x / of_int y
      = (2 * (of_int y * of_int ?q) - 2 * (of_int x * 10 ^ s)) / (2 * of_int y * 10 ^ s)"
    using ypos by (simp add: rounded_quotient_def field_simps)
  then have "\<bar>rounded_quotient s x y - of_int x / of_int y\<bar>
      = \<bar>2 * (of_int y * of_int ?q) - 2 * (of_int x * 10 ^ s)\<bar> / (2 * of_int y * 10 ^ s)"
    using ypos by (simp add: abs_mult)
  also have "\<dots> \<le> of_int y / (2 * of_int y * 10 ^ s)"
    using le ypos by (intro divide_right_mono) simp_all
  also have "\<dots> = 1 / (2 * 10 ^ s)"
    using ypos by simp
  finally show ?thesis .
qed

lemma sum_case_nonneg: "0 \<le> sum_case l g"
  by (induction g) (simp_all add: sum_case_def)

lemma sum_case_total:
  "sum_case ''positive'' g + sum_case ''neutral'' g + sum_case ''negative'' g
     = count_star (filter labelled g)"
  by (induction g) (auto simp: sum_case_def count_star_def labelled_def)

lemma three_parts_bound:
  fixes p n q a b c e :: rat
  assumes "\<bar>p - a\<bar> \<le> e" "\<bar>n - b\<bar> \<le> e" "\<bar>q - c\<bar> \<le> e" "a + b + c = 1"
  shows "\<bar>p + n + q - 1\<bar> \<le> 3 * e"
  using assms by linarith

lemma sum_case_le_count: "sum_case l g \<le> count_star g"
  by (induction g) (simp_all add: sum_case_def count_star_def)

lemma ratio_sum_bound:
  assumes ne: "g \<noteq> []" and lab: "list_all labelled g"
    and sc: "\<And>a b. 0 \<le> a \<Longrightarrow> a \<le> b \<Longrightarrow> 0 < b \<Longrightarrow> m \<le> scale a b"
  shows "\<bar>positive_ratio (weekly_values scale k g) + neutral_ratio (weekly_values scale k g)
          + negative_ratio (weekly_values scale k g) - 1\<bar> \<le> 3 / (2 * 10 ^ m)"
proof -
  define n where "n = count_star g"
  define cp where "cp = sum_case ''positive'' g"
  define cn where "cn = sum_case ''neutral'' g"
  define cm where "cm = sum_case ''negative'' g"
  have npos: "0 < n" using ne by (cases g) (simp_all add: count_star_def n_def)
  have one: "\<bar>rounded_quotient (scale c n) c n - of_int c / of_int n\<bar> \<le> 1 / (2 * 10 ^ m)"
    if "0 \<le> c" "c \<le> n" for c
  proof -
    have "\<bar>rounded_quotient (scale c n) c n - of_int c / of_int n\<bar> \<le> 1 / (2 * 10 ^ scale c n)"
      using that(1) npos by (rule rounded_quotient_error)
    also have "\<dots> \<le> 1 / (2 * 10 ^ m)"
      using sc[OF that npos] by (simp add: frac_le power_increasing)
    finally show ?thesis .
  qed
  have "filter labelled g = g" using lab by (simp add: list_all_iff)
  then have "cp + cn + cm = n"
    using sum_case_total[of g] by (simp add: cp_def cn_def cm_def n_def)
  then have "(of_int (cp + cn + cm) :: rat) = of_int n"
    by (simp only:)
  then have tot: "(of_int cp / of_int n + of_int cn / of_int n + of_int cm / of_int n :: rat) = 1"
    using npos by (simp add: add_divide_distrib[symmetric])
  have "\<bar>rounded_quotient (scale cp n) cp n + rounded_quotient (scale cn n) cn n
          + rounded_quotient (scale cm n) cm n - 1\<bar> \<le> 3 * (1 / (2 * 10 ^ m))"
    by (rule three_parts_bound[OF one one one tot])
       (simp_all add: cp_def cn_def cm_def n_def sum_case_nonneg sum_case_le_count)
  then show ?thesis
    by (simp add: weekly_values_def cp_def cn_def cm_def n_def)
qed

lemma tolerance_from_scale: "10 \<le> m \<Longrightarrow> (3::rat) / (2 * 10 ^ m) \<le> 1 / 10 ^ 9"
proof -
  assume "10 \<le> m"
  then have "(10::rat) ^ 10 \<le> 10 ^ m"
    by (intro power_increasing) simp_all
  then have "(3::rat) / (2 * 10 ^ m) \<le> 3 / (2 * 10 ^ 10)"
    by (intro divide_left_mono) simp_all
  also have "\<dots> \<le> 1 / 10 ^ 9" by simp
  finally show ?thesis .
qed

section \<open>Properties of the grouping queries\<close>

text \<open>
  C1. Take a row of the weekly or of the monthly query whose group holds only tweets
  with one of the three labels, the validated items the aggregation is given. Its three
  ratios add up to 1, up to the rounding of the three quotients. Each quotient divides a
  count by a count that is positive and not smaller; when the engine keeps at least
  \<open>m\<close> digits of every such quotient, the sum is within \<open>3 / (2 * 10 ^ m)\<close> of 1,
  which is within \<open>1e-9\<close> from ten digits on.
\<close>

theorem ratios_sum_to_one:
  assumes "\<And>x y. 0 \<le> x \<Longrightarrow> x \<le> y \<Longrightarrow> 0 < y \<Longrightarrow> m \<le> scale x y"
  shows "(weekly_analysis_of scale date_trunc u db = Inr rows \<and> r \<in> set rows
           \<and> list_all labelled
                (group_of (period_of (date_trunc Week)) (joined u (analyses db) (tweets db))
                   (week_start r))
          \<longrightarrow> \<bar>positive_ratio r + neutral_ratio r + negative_ratio r - 1\<bar> \<le> 3 / (2 * 10 ^ m)
              \<and> (10 \<le> m \<longrightarrow>
                   \<bar>positive_ratio r + neutral_ratio r + negative_ratio r - 1\<bar> \<le> 1 / 10 ^ 9))
       \<and> (monthly_analysis_of scale date_trunc u db = Inr mrows \<and> (k, p, n, q) \<in> set mrows
           \<and> list_all labelled
                (group_of (period_of (date_trunc Month)) (joined u (analyses db) (tweets db)) k)
          \<longrightarrow> \<bar>p + n + q - 1\<bar> \<le> 3 / (2 * 10 ^ m)
              \<and> (10 \<le> m \<longrightarrow> \<bar>p + n + q - 1\<bar> \<le> 1 / 10 ^ 9))"
proof (intro conjI impI; elim conjE)
  let ?rows = "joined u (analyses db) (tweets db)"
  have tol: "\<bar>x - 1\<bar> \<le> 1 / 10 ^ 9" if "\<bar>x - 1\<bar> \<le> 3 / (2 * 10 ^ m)" "10 \<le> m" for x :: rat
    using that(1) tolerance_from_scale[OF that(2)] by (rule order_trans)
  {
    let ?key = "period_of (date_trunc Week)"
    assume w: "weekly_analysis_of scale date_trunc u db = Inr rows" "r \<in> set rows"
      and lab: "list_all labelled (group_of ?key ?rows (week_start r))"
    from w obtain k' where k': "k' \<in> set (group_keys ?key ?rows)"
      and r: "r = weekly_values scale k' (group_of ?key ?rows k')"
      by (auto simp: weekly_analysis_of_rows)
    have wk: "week_start r = k'"
      by (simp add: r week_start_weekly_values)
    show b: "\<bar>positive_ratio r + neutral_ratio r + negative_ratio r - 1\<bar> \<le> 3 / (2 * 10 ^ m)"
      unfolding r
      using group_of_nonempty[OF k'] lab assms unfolding wk
      by (rule ratio_sum_bound)
    show "\<bar>positive_ratio r + neutral_ratio r + negative_ratio r - 1\<bar> \<le> 1 / 10 ^ 9"
      if "10 \<le> m"
      using b that by (rule tol)
  }
  {
    let ?key = "period_of (date_trunc Month)"
    assume mo: "monthly_analysis_of scale date_trunc u db = Inr mrows" "(k, p, n, q) \<in> set mrows"
      and lab: "list_all labelled (group_of ?key ?rows k)"
    from mo have k: "k \<in> set (group_keys ?key ?rows)"
      and p: "p = positive_ratio (weekly_values scale k (group_of ?key ?rows k))"
      and n: "n = neutral_ratio (weekly_values scale k (group_of ?key ?rows k))"
      and q: "q = negative_ratio (weekly_values scale k (group_of ?key ?rows k))"
      by (auto simp: monthly_analysis_of_def grouped_monthly)
    show b: "\<bar>p + n + q - 1\<bar> \<le> 3 / (2 * 10 ^ m)"
      unfolding p n q
      using group_of_nonempty[OF k] lab assms
      by (rule ratio_sum_bound)
    show "\<bar>p + n + q - 1\<bar> \<le> 1 / 10 ^ 9" if "10 \<le> m"
      using b that by (rule tol)
  }
qed

text \<open>
  The theorem at the sample database: the week of Monday 2025-01-06 holds one tweet of
  each label, and the three ratios, each 0.33333333333333333333, add up to 1 within the
  bound; the month of January 2025 holds all four tweets, with the ratios 0.5, 0.25 and
  0.25.
\<close>

theorem ratios_sum_to_one_witness:
  "weekly_analysis_of sample_scale sample_trunc ''getgrass_io'' sample_db =
     Inr [\<lparr>week_start = Some 1736121600000000, total_tweets = 3,
           positive_ratio = 33333333333333333333 / 10 ^ 20,
           neutral_ratio = 33333333333333333333 / 10 ^ 20,
           negative_ratio = 33333333333333333333 / 10 ^ 20\<rparr>,
          \<lparr>week_start = Some 1736726400000000, total_tweets = 1, positive_ratio = 1,
           neutral_ratio = 0, negative_ratio = 0\<rparr>]
   \<and> \<bar>(33333333333333333333 / 10 ^ 20 + 33333333333333333333 / 10 ^ 20
        + 33333333333333333333 / 10 ^ 20 :: rat) - 1\<bar> \<le> 1 / 10 ^ 9
   \<and> monthly_analysis_of sample_scale sample_trunc ''getgrass_io'' sample_db =
     Inr [(Some 1735689600000000, 1 / 2, 1 / 4, 1 / 4)]
   \<and> \<bar>(1 / 2 + 1 / 4 + 1 / 4 :: rat) - 1\<bar> \<le> 1 / 10 ^ 9"
proof -
  let ?r = "\<lparr>week_start = Some 1736121600000000, total_tweets = 3,
           positive_ratio = 33333333333333333333 / 10 ^ 20,
           neutral_ratio = 33333333333333333333 / 10 ^ 20,
           negative_ratio = 33333333333333333333 / 10 ^ 20\<rparr>"
  let ?r' = "\<lparr>week_start = Some 1736726400000000, total_tweets = 1, positive_ratio = 1,
           neutral_ratio = 0, negative_ratio = 0\<rparr>"
  have rows: "weekly_analysis_of sample_scale sample_trunc ''getgrass_io'' sample_db = Inr [?r, ?r']"
    by code_simp
  have mem: "?r \<in> set [?r, ?r']"
    by simp
  have lab: "list_all labelled
      (group_of (period_of (sample_trunc Week))
         (joined ''getgrass_io'' (analyses sample_db) (tweets sample_db)) (week_start ?r))"
    by code_simp
  have mrows: "monthly_analysis_of sample_scale sample_trunc ''getgrass_io'' sample_db =
     Inr [(Some 1735689600000000, 1 / 2, 1 / 4, 1 / 4)]"
    by code_simp
  have mmem: "(Some 1735689600000000, 1 / 2, 1 / 4, 1 / 4)
      \<in> set [(Some (1735689600000000::int), 1 / 2 :: rat, 1 / 4 :: rat, 1 / 4 :: rat)]"
    by simp
  have mlab: "list_all labelled
      (group_of (period_of (sample_trunc Month))
         (joined ''getgrass_io'' (analyses sample_db) (tweets sample_db))
         (Some 1735689600000000))"
    by code_simp
  have sc: "\<And>x y. 0 \<le> x \<Longrightarrow> x \<le> y \<Longrightarrow> 0 < y \<Longrightarrow> 20 \<le> sample_scale x y"
    by (simp add: sample_scale_def)
  from ratios_sum_to_one[OF sc, where date_trunc = sample_trunc and u = "''getgrass_io''"
      and db = sample_db and rows = "[?r, ?r']" and r = ?r
      and mrows = "[(Some 1735689600000000, 1 / 2, 1 / 4, 1 / 4)]"
      and k = "Some 1735689600000000" and p = "1 / 2" and n = "1 / 4" and q = "1 / 4"]
    rows mem lab mrows mmem mlab
  show ?thesis
    by simp
qed

text \<open>
  C2. The rows of either query come in strictly ascending order of their period start
  (a null period start, if there is one, comes last), and no two rows have the same
  period start, whatever the rows of the store and whatever the truncation.
\<close>

theorem buckets_strictly_ascending:
  "(\<exists>rows. weekly_analysis_of scale date_trunc u db = Inr rows
      \<and> sorted_wrt precedes (map week_start rows) \<and> distinct (map week_start rows))
   \<and> (\<exists>rows. monthly_analysis_of scale date_trunc u db = Inr rows
      \<and> sorted_wrt precedes (map fst rows) \<and> distinct (map fst rows))"
proof
  show "\<exists>rows. weekly_analysis_of scale date_trunc u db = Inr rows
      \<and> sorted_wrt precedes (map week_start rows) \<and> distinct (map week_start rows)"
    by (simp add: weekly_analysis_of_rows comp_def week_start_weekly_values
        sorted_group_keys distinct_group_keys)
next
  from monthly_analysis_of_keys[of scale date_trunc u db]
  show "\<exists>rows. monthly_analysis_of scale date_trunc u db = Inr rows
      \<and> sorted_wrt precedes (map fst rows) \<and> distinct (map fst rows)"
    by (auto simp: sorted_group_keys distinct_group_keys)
qed

text \<open>
  C5. On a store without tweets both queries return no rows, and do not fail; nor do
  they on a store without analyses, where no tweet joins.
\<close>

theorem buckets_of_no_tweets:
  "weekly_analysis_of scale date_trunc u \<lparr>analyses = as, tweets = []\<rparr> = Inr []
   \<and> monthly_analysis_of scale date_trunc u \<lparr>analyses = as, tweets = []\<rparr> = Inr []
   \<and> weekly_analysis scale date_trunc \<lparr>analyses = as, tweets = []\<rparr> = Inr []
   \<and> monthly_analysis scale date_trunc \<lparr>analyses = as, tweets = []\<rparr> = Inr []
   \<and> weekly_analysis_of scale date_trunc u \<lparr>analyses = [], tweets = ts\<rparr> = Inr []
   \<and> monthly_analysis_of scale date_trunc u \<lparr>analyses = [], tweets = ts\<rparr> = Inr []"
  by (simp add: weekly_analysis_def monthly_analysis_def weekly_analysis_of_def
      monthly_analysis_of_def grouped_def joined_no_tweets joined_no_analyses group_keys_Nil)

text \<open>
  C8. Every group the queries form holds at least one row, so the divisor
  \<^verbatim>\<open>COUNT(*)\<close> is at least 1 wherever a ratio is computed: no row fails with a
  division by zero, both queries return rows, and every \<open>total_tweets\<close> is at least 1.
\<close>

theorem no_division_by_zero:
  "(\<forall>k \<in> set (group_keys key rows).
      1 \<le> count_star (group_of key rows k)
      \<and> weekly_row scale k (group_of key rows k)
          = Inr (weekly_values scale k (group_of key rows k)))
   \<and> (\<exists>rs. weekly_analysis_of scale date_trunc u db = Inr rs \<and> (\<forall>r \<in> set rs. 1 \<le> total_tweets r))
   \<and> (\<exists>rs. monthly_analysis_of scale date_trunc u db = Inr rs)"
proof (intro conjI ballI)
  fix k assume "k \<in> set (group_keys key rows)"
  then show "1 \<le> count_star (group_of key rows k)"
    by (simp add: group_of_nonempty count_star_pos)
next
  fix k assume "k \<in> set (group_keys key rows)"
  then show "weekly_row scale k (group_of key rows k)
          = Inr (weekly_values scale k (group_of key rows k))"
    by (simp add: group_of_nonempty weekly_row_nonempty)
next
  show "\<exists>rs. weekly_analysis_of scale date_trunc u db = Inr rs \<and> (\<forall>r \<in> set rs. 1 \<le> total_tweets r)"
    by (auto simp: weekly_analysis_of_rows total_tweets_weekly_values group_of_nonempty count_star_pos)
next
  from monthly_analysis_of_keys[of scale date_trunc u db]
  show "\<exists>rs. monthly_analysis_of scale date_trunc u db = Inr rs"
    by blast
qed

text \<open>
  The theorem at the sample database: the weekly query forms the groups of the weeks of
  2025-01-06 and 2025-01-13, of three tweets and of one.
\<close>

theorem no_division_by_zero_witness:
  "group_keys (period_of (sample_trunc Week)) (tweets sample_db)
     = [Some 1736121600000000, Some 1736726400000000]
   \<and> 1 \<le> count_star (group_of (period_of (sample_trunc Week)) (tweets sample_db)
                          (Some 1736121600000000))
   \<and> 1 \<le> count_star (group_of (period_of (sample_trunc Week)) (tweets sample_db)
                          (Some 1736726400000000))
   \<and> (\<exists>rs. weekly_analysis_of sample_scale sample_trunc ''getgrass_io'' sample_db = Inr rs
        \<and> rs \<noteq> [] \<and> (\<forall>r \<in> set rs. 1 \<le> total_tweets r))"
proof -
  have keys: "group_keys (period_of (sample_trunc Week)) (tweets sample_db)
     = [Some 1736121600000000, Some 1736726400000000]"
    by code_simp
  have rows: "weekly_analysis_of sample_scale sample_trunc ''getgrass_io'' sample_db \<noteq> Inr []"
    by code_simp
  from no_division_by_zero[of "period_of (sample_trunc Week)" "tweets sample_db"
      sample_scale sample_trunc "''getgrass_io''" sample_db] keys rows
  show ?thesis by auto
qed

section \<open>The result depends on the stored rows only\<close>

lemma mset_concat_map_cong:
  "mset xs = mset ys \<Longrightarrow> mset (concat (map f xs)) = mset (concat (map f ys))"
proof -
  assume eq: "mset xs = mset ys"
  have "mset (concat (map f zs)) = (\<Sum>z\<in>#mset zs. mset (f z))" for zs
    by (induction zs) simp_all
  then show ?thesis using eq by simp
qed

lemma mset_joined:
  assumes "mset as = mset as'" and "mset ts = mset ts'"
  shows "mset (joined u as ts) = mset (joined u as' ts')"
proof -
  have "mset (filter (\<lambda>a. analysis.username a = u) as)
      = mset (filter (\<lambda>a. analysis.username a = u) as')"
    using assms(1) by simp
  then have "mset (joined u as ts) = mset (joined u as' ts)"
    unfolding joined_def by (rule mset_concat_map_cong)
  also have "\<dots> = mset (joined u as' ts')"
    using assms(2) by (simp add: joined_def mset_concat comp_def)
  finally show ?thesis .
qed

lemma group_keys_mset:
  assumes "mset rows = mset rows'"
  shows "group_keys key rows = group_keys key rows'"
proof -
  have set_eq: "set rows = set rows'"
    using assms by (rule mset_eq_setD)
  have props: "sorted (map nulls_last (group_keys key rs))
      \<and> distinct (map nulls_last (group_keys key rs))
      \<and> set (map nulls_last (group_keys key rs)) = nulls_last ` key ` set rs" for rs
    by (simp add: group_keys_def distinct_map inj_on_subset[OF inj_nulls_last])
  have "map nulls_last (group_keys key rows) = map nulls_last (group_keys key rows')"
    using props[of rows] props[of rows'] set_eq
    by (intro sorted_distinct_set_unique) simp_all
  then show ?thesis
    by (simp add: inj_map_eq_map[OF inj_nulls_last])
qed

lemma group_of_mset:
  "mset rows = mset rows' \<Longrightarrow> mset (group_of key rows k) = mset (group_of key rows' k)"
  by (simp add: group_of_def)

lemma sum_case_mset: "mset g = mset g' \<Longrightarrow> sum_case l g = sum_case l g'"
proof -
  assume eq: "mset g = mset g'"
  have "sum_case l h = (\<Sum>t\<in>#mset h. if sentiment t = Some l then 1 else 0)" for h
    by (induction h) (simp_all add: sum_case_def)
  then show ?thesis using eq by simp
qed

lemma count_star_mset: "mset g = mset g' \<Longrightarrow> count_star g = count_star g'"
  unfolding count_star_def by (metis size_mset)

lemma weekly_values_mset:
  assumes "mset g = mset g'"
  shows "weekly_values scale k g = weekly_values scale k g'"
proof -
  have "sum_case l g = sum_case l g'" for l
    using assms by (rule sum_case_mset)
  moreover have "count_star g = count_star g'"
    using assms by (rule count_star_mset)
  ultimately show ?thesis
    unfolding weekly_values_def by presburger
qed

lemma grouped_weekly_mset:
  assumes "mset rows = mset rows'"
  shows "grouped (weekly_row scale) key rows = grouped (weekly_row scale) key rows'"
proof -
  have "weekly_values scale k (group_of key rows k) = weekly_values scale k (group_of key rows' k)"
    for k
    using group_of_mset[OF assms] by (rule weekly_values_mset)
  then show ?thesis
    using group_keys_mset[OF assms, of key] by (simp only: grouped_weekly)
qed

lemma grouped_monthly_mset:
  assumes "mset rows = mset rows'"
  shows "grouped (monthly_row scale) key rows = grouped (monthly_row scale) key rows'"
proof -
  have "weekly_values scale k (group_of key rows k) = weekly_values scale k (group_of key rows' k)"
    for k
    using group_of_mset[OF assms] by (rule weekly_values_mset)
  then show ?thesis
    using group_keys_mset[OF assms, of key] by (simp only: grouped_monthly)
qed

text \<open>
  C7, as amended. The result of either query is a function of the rows stored for the
  user and of the truncation, which the time zone of the session fixes: for one
  truncation, two stores that hold the same rows, in whatever order they are stored,
  give the same result.
\<close>

theorem aggregation_deterministic:
  assumes "mset (analyses db) = mset (analyses db')"
    and "mset (tweets db) = mset (tweets db')"
  shows "weekly_analysis_of scale date_trunc u db = weekly_analysis_of scale date_trunc u db'
         \<and> monthly_analysis_of scale date_trunc u db
             = monthly_analysis_of scale date_trunc u db'"
proof -
  have "mset (joined u (analyses db) (tweets db)) = mset (joined u (analyses db') (tweets db'))"
    using assms by (rule mset_joined)
  then show ?thesis
    unfolding weekly_analysis_of_def monthly_analysis_of_def
    by (intro conjI grouped_weekly_mset grouped_monthly_mset)
qed

text \<open>
  The theorem at the sample database and the same rows stored in another order, in a
  session in UTC.
\<close>

theorem aggregation_deterministic_witness:
  "mset (analyses sample_db) = mset (analyses reordered_db)
   \<and> mset (tweets sample_db) = mset (tweets reordered_db)
   \<and> tweets sample_db \<noteq> tweets reordered_db
   \<and> weekly_analysis_of sample_scale sample_trunc ''getgrass_io'' sample_db
       = weekly_analysis_of sample_scale sample_trunc ''getgrass_io'' reordered_db
   \<and> monthly_analysis_of sample_scale sample_trunc ''getgrass_io'' sample_db
       = monthly_analysis_of sample_scale sample_trunc ''getgrass_io'' reordered_db"
proof -
  have a: "mset (analyses sample_db) = mset (analyses reordered_db)"
    by (simp add: sample_db_def reordered_db_def)
  have t: "mset (tweets sample_db) = mset (tweets reordered_db)"
    by (simp add: sample_db_def reordered_db_def)
  have n: "tweets sample_db \<noteq> tweets reordered_db"
    by (simp add: sample_db_def reordered_db_def sample_tweet_def)
  from aggregation_deterministic[OF a t, of sample_scale sample_trunc "''getgrass_io''"] a t n
  show ?thesis by blast
qed

text \<open>
  C7, as stated, fails: the result does not depend on the items and the period alone.
  The weekly query on the same store gives two buckets in a session in UTC and three in
  a session five hours west of UTC, where the tweet of Monday 2025-01-06 02:00 UTC is a
  tweet of Sunday evening and falls into the week before.
\<close>

theorem time_zone_changes_buckets_counterexample:
  "weekly_analysis sample_scale (fixed_offset_trunc 0) sample_db =
     Inr [\<lparr>week_start = Some 1736121600000000, total_tweets = 3,
           positive_ratio = 33333333333333333333 / 10 ^ 20,
           neutral_ratio = 33333333333333333333 / 10 ^ 20,
           negative_ratio = 33333333333333333333 / 10 ^ 20\<rparr>,
          \<lparr>week_start = Some 1736726400000000, total_tweets = 1, positive_ratio = 1,
           neutral_ratio = 0, negative_ratio = 0\<rparr>]
   \<and> weekly_analysis sample_scale (fixed_offset_trunc (- 18000000000)) sample_db =
     Inr [\<lparr>week_start = Some 1735534800000000, total_tweets = 1, positive_ratio = 1,
           neutral_ratio = 0, negative_ratio = 0\<rparr>,
          \<lparr>week_start = Some 1736139600000000, total_tweets = 2, positive_ratio = 0,
           neutral_ratio = 1 / 2, negative_ratio = 1 / 2\<rparr>,
          \<lparr>week_start = Some 1736744400000000, total_tweets = 1, positive_ratio = 1,
           neutral_ratio = 0, negative_ratio = 0\<rparr>]"
proof -
  have "weekly_analysis sample_scale (fixed_offset_trunc 0) sample_db =
     Inr [\<lparr>week_start = Some 1736121600000000, total_tweets = 3,
           positive_ratio = 33333333333333333333 / 10 ^ 20,
           neutral_ratio = 33333333333333333333 / 10 ^ 20,
           negative_ratio = 33333333333333333333 / 10 ^ 20\<rparr>,
          \<lparr>week_start = Some 1736726400000000, total_tweets = 1, positive_ratio = 1,
           neutral_ratio = 0, negative_ratio = 0\<rparr>]"
    by code_simp
  moreover have "weekly_analysis sample_scale (fixed_offset_trunc (- 18000000000)) sample_db =
     Inr [\<lparr>week_start = Some 1735534800000000, total_tweets = 1, positive_ratio = 1,
           neutral_ratio = 0, negative_ratio = 0\<rparr>,
          \<lparr>week_start = Some 1736139600000000, total_tweets = 2, positive_ratio = 0,
           neutral_ratio = 1 / 2, negative_ratio = 1 / 2\<rparr>,
          \<lparr>week_start = Some 1736744400000000, total_tweets = 1, positive_ratio = 1,
           neutral_ratio = 0, negative_ratio = 0\<rparr>]"
    by code_simp
  ultimately show ?thesis by blast
qed

section \<open>Properties of the report builder\<close>

lemma rank_key_le: "rank_key a \<le> rank_key b \<longleftrightarrow> ranks_before a b"
  by (auto simp: rank_key_def ranks_before_def less_eq_prod_def)

lemma rank_key_eq: "rank_key i = (- s, - c) \<longleftrightarrow> score i = s \<and> createdAt i = c"
  by (auto simp: rank_key_def)

lemma sorted_top_list: "sorted_wrt ranks_before (top_list topN l items)"
proof -
  have "sorted (map rank_key (sort_key rank_key (with_label l items)))"
    by (rule sorted_sort_key)
  then have "sorted_wrt ranks_before (sort_key rank_key (with_label l items))"
    by (simp add: sorted_wrt_map rank_key_le)
  then show ?thesis
    unfolding top_list_def by (rule sorted_wrt_take)
qed

lemma prefix_filter_take: "prefix (filter P (take n xs)) (filter P xs)"
proof -
  have "filter P xs = filter P (take n xs) @ filter P (drop n xs)"
    by (metis append_take_drop_id filter_append)
  then show ?thesis
    by (metis prefixI)
qed

lemma stable_top_list:
  "prefix (filter (\<lambda>i. score i = s \<and> createdAt i = c) (top_list topN l items))
          (filter (\<lambda>i. score i = s \<and> createdAt i = c) (with_label l items))"
proof -
  let ?P = "\<lambda>i. score i = s \<and> createdAt i = c"
  have "filter (\<lambda>i. rank_key i = (- s, - c)) (sort_key rank_key (with_label l items))
      = filter (\<lambda>i. rank_key i = (- s, - c)) (with_label l items)"
    by (rule sort_key_stable)
  then have "filter ?P (sort_key rank_key (with_label l items)) = filter ?P (with_label l items)"
    by (simp only: rank_key_eq)
  then show ?thesis
    unfolding top_list_def using prefix_filter_take[of ?P topN] by metis
qed

lemma length_top_list: "length (top_list topN l items) = min topN (length (with_label l items))"
  by (simp add: top_list_def min.commute)

lemma set_top_list: "set (top_list topN l items) \<subseteq> set (with_label l items)"
proof -
  have "set (top_list topN l items) \<subseteq> set (sort_key rank_key (with_label l items))"
    unfolding top_list_def by (rule set_take_subset)
  then show ?thesis by simp
qed

text \<open>
  C3 (against the report builder modelled from the specification). Each top list is
  in descending order of score, of two items of equal score the one with the later
  \<open>createdAt\<close> comes first, and the items of one score and one \<open>createdAt\<close> appear
  in the order they have in the input: they are an initial part of the input's items of
  that label, score and \<open>createdAt\<close>.
\<close>

theorem top_lists_order:
  "sorted_wrt ranks_before (topPositive (buildReport items topN))
   \<and> sorted_wrt ranks_before (topNeutral (buildReport items topN))
   \<and> sorted_wrt ranks_before (topNegative (buildReport items topN))
   \<and> prefix (filter (\<lambda>i. score i = s \<and> createdAt i = c) (topPositive (buildReport items topN)))
            (filter (\<lambda>i. score i = s \<and> createdAt i = c) (with_label Positive items))
   \<and> prefix (filter (\<lambda>i. score i = s \<and> createdAt i = c) (topNeutral (buildReport items topN)))
            (filter (\<lambda>i. score i = s \<and> createdAt i = c) (with_label Neutral items))
   \<and> prefix (filter (\<lambda>i. score i = s \<and> createdAt i = c) (topNegative (buildReport items topN)))
            (filter (\<lambda>i. score i = s \<and> createdAt i = c) (with_label Negative items))"
  by (simp add: buildReport_def sorted_top_list stable_top_list)

text \<open>The scenario of the specification: of the two positive items of score 0.9 the
  one of day 2 comes first.\<close>

lemma scenario_top_lists:
  "topPositive (buildReport sample_items 5)
     = [sample_item ''b'' Positive (9 / 10) 2, sample_item ''a'' Positive (9 / 10) 1]
   \<and> topNegative (buildReport sample_items 5) = [sample_item ''c'' Negative (7 / 10) 1]
   \<and> topNeutral (buildReport sample_items 5) = []
   \<and> summary (buildReport sample_items 5) = \<lparr>positive = 2, neutral = 0, negative = 1\<rparr>"
  by code_simp

text \<open>
  C4 (against the report builder modelled from the specification). Each top list has
  at most \<open>topN\<close> items, all of them items of its label, and when fewer than \<open>topN\<close>
  items carry the label it has exactly as many items as carry it.
\<close>

theorem top_lists_length:
  "length (topPositive (buildReport items topN)) \<le> topN
   \<and> length (topNeutral (buildReport items topN)) \<le> topN
   \<and> length (topNegative (buildReport items topN)) \<le> topN
   \<and> (length (with_label Positive items) < topN \<longrightarrow>
        length (topPositive (buildReport items topN)) = length (with_label Positive items))
   \<and> (length (with_label Neutral items) < topN \<longrightarrow>
        length (topNeutral (buildReport items topN)) = length (with_label Neutral items))
   \<and> (length (with_label Negative items) < topN \<longrightarrow>
        length (topNegative (buildReport items topN)) = length (with_label Negative items))
   \<and> set (topPositive (buildReport items topN)) \<subseteq> set (with_label Positive items)
   \<and> set (topNeutral (buildReport items topN)) \<subseteq> set (with_label Neutral items)
   \<and> set (topNegative (buildReport items topN)) \<subseteq> set (with_label Negative items)"
  by (simp add: buildReport_def length_top_list set_top_list)

text \<open>
  The theorem at the scenario's items: with \<open>topN = 5\<close> the two positive items, the
  negative item and no neutral item are listed; with \<open>topN = 1\<close> one positive item is.
\<close>

theorem top_lists_length_witness:
  "length (with_label Positive sample_items) = 2
   \<and> length (topPositive (buildReport sample_items 5)) = 2
   \<and> length (topNeutral (buildReport sample_items 5)) = 0
   \<and> length (topNegative (buildReport sample_items 5)) = 1
   \<and> length (topPositive (buildReport sample_items 1)) \<le> 1"
proof -
  have p: "length (with_label Positive sample_items) = 2"
    by code_simp
  have n: "length (with_label Neutral sample_items) = 0"
    by code_simp
  have m: "length (with_label Negative sample_items) = 1"
    by code_simp
  from top_lists_length[of sample_items 5] top_lists_length[of sample_items 1] p n m
  show ?thesis by simp
qed

text \<open>
  C6 (against the report builder modelled from the specification). The report of no
  items has the three counts 0 and three empty top lists.
\<close>

theorem report_of_no_items:
  "buildReport [] topN =
     \<lparr>summary = \<lparr>positive = 0, neutral = 0, negative = 0\<rparr>,
      topPositive = [], topNeutral = [], topNegative = []\<rparr>"
  by (simp add: buildReport_def with_label_def top_list_def)

section \<open>Properties of ingestion\<close>











section \<open>Properties of the API client\<close>

lemma getUserTweets_resolved:
  "fetch (user_tweets_request u) = Inr r \<Longrightarrow>
     getUserTweets fetch u = (if ok r then json r else Inl (Error ''Failed to fetch user tweets''))"
  by (simp add: getUserTweets_def)

lemma getWeeklyAnalysis_resolved:
  "fetch (weekly_analysis_request u) = Inr r \<Longrightarrow>
     getWeeklyAnalysis fetch u
       = (if ok r then json r else Inl (Error ''Failed to fetch weekly analysis''))"
  by (simp add: getWeeklyAnalysis_def)

lemma getSentimentReports_resolved:
  "fetch (sentiment_reports_request u) = Inr r \<Longrightarrow>
     getSentimentReports fetch u
       = (if ok r then json r else Inl (Error ''Failed to fetch sentiment reports''))"
  by (simp add: getSentimentReports_def)

lemma analyzeTweets_resolved:
  "fetch (analyze_request u) = Inr r \<Longrightarrow>
     analyzeTweets fetch u = (if ok r then json r else Inl (Error ''Failed to analyze tweets''))"
  by (simp add: analyzeTweets_def)

text \<open>
  C10, as amended. When \<^verbatim>\<open>fetch\<close> resolves to a response, each of the four
  functions throws its own \<^verbatim>\<open>Error\<close> if the response is not ok, and otherwise
  gives what \<^verbatim>\<open>response.json()\<close> gives: the parsed body, or the rejection of a body
  that does not parse. So a function throws exactly when the response is not ok or its
  body does not parse. When \<^verbatim>\<open>fetch\<close> itself rejects, the function throws what
  \<^verbatim>\<open>fetch\<close> threw.
\<close>

theorem api_client_outcome:
  "(fetch (user_tweets_request u) = Inr r \<longrightarrow>
      (\<not> ok r \<longrightarrow> getUserTweets fetch u = Inl (Error ''Failed to fetch user tweets''))
      \<and> (ok r \<longrightarrow> getUserTweets fetch u = json r)
      \<and> (isl (getUserTweets fetch u) \<longleftrightarrow> \<not> ok r \<or> isl (json r)))
   \<and> (fetch (weekly_analysis_request u) = Inr r \<longrightarrow>
      (\<not> ok r \<longrightarrow> getWeeklyAnalysis fetch u = Inl (Error ''Failed to fetch weekly analysis''))
      \<and> (ok r \<longrightarrow> getWeeklyAnalysis fetch u = json r)
      \<and> (isl (getWeeklyAnalysis fetch u) \<longleftrightarrow> \<not> ok r \<or> isl (json r)))
   \<and> (fetch (sentiment_reports_request u) = Inr r \<longrightarrow>
      (\<not> ok r \<longrightarrow>
         getSentimentReports fetch u = Inl (Error ''Failed to fetch sentiment reports''))
      \<and> (ok r \<longrightarrow> getSentimentReports fetch u = json r)
      \<and> (isl (getSentimentReports fetch u) \<longleftrightarrow> \<not> ok r \<or> isl (json r)))
   \<and> (fetch (analyze_request u) = Inr r \<longrightarrow>
      (\<not> ok r \<longrightarrow> analyzeTweets fetch u = Inl (Error ''Failed to analyze tweets''))
      \<and> (ok r \<longrightarrow> analyzeTweets fetch u = json r)
      \<and> (isl (analyzeTweets fetch u) \<longleftrightarrow> \<not> ok r \<or> isl (json r)))
   \<and> (fetch (user_tweets_request u) = Inl e \<longrightarrow> getUserTweets fetch u = Inl e)
   \<and> (fetch (weekly_analysis_request u) = Inl e \<longrightarrow> getWeeklyAnalysis fetch u = Inl e)
   \<and> (fetch (sentiment_reports_request u) = Inl e \<longrightarrow> getSentimentReports fetch u = Inl e)
   \<and> (fetch (analyze_request u) = Inl e \<longrightarrow> analyzeTweets fetch u = Inl e)"
proof (intro conjI impI)
  show "getUserTweets fetch u = Inl e" if "fetch (user_tweets_request u) = Inl e"
    using that by (simp add: getUserTweets_def)
  show "getWeeklyAnalysis fetch u = Inl e" if "fetch (weekly_analysis_request u) = Inl e"
    using that by (simp add: getWeeklyAnalysis_def)
  show "getSentimentReports fetch u = Inl e" if "fetch (sentiment_reports_request u) = Inl e"
    using that by (simp add: getSentimentReports_def)
  show "analyzeTweets fetch u = Inl e" if "fetch (analyze_request u) = Inl e"
    using that by (simp add: analyzeTweets_def)
qed (simp_all add: getUserTweets_resolved getWeeklyAnalysis_resolved
      getSentimentReports_resolved analyzeTweets_resolved)

text \<open>
  The theorem at a network that answers every request with a response that is not ok,
  and at one that answers with an ok response whose body parses to 7.
\<close>

theorem api_client_outcome_witness:
  "getUserTweets (\<lambda>req. Inr \<lparr>ok = False, json = Inr (7::nat)\<rparr>) ''getgrass_io''
     = Inl (Error ''Failed to fetch user tweets'')
   \<and> getWeeklyAnalysis (\<lambda>req. Inr \<lparr>ok = False, json = Inr (7::nat)\<rparr>) ''getgrass_io''
     = Inl (Error ''Failed to fetch weekly analysis'')
   \<and> getSentimentReports (\<lambda>req. Inr \<lparr>ok = True, json = Inr (7::nat)\<rparr>) ''getgrass_io'' = Inr 7
   \<and> analyzeTweets (\<lambda>req. Inr \<lparr>ok = True, json = Inr (7::nat)\<rparr>) ''getgrass_io'' = Inr 7
   \<and> analyzeTweets (\<lambda>req. Inl (TypeError ''Failed to fetch'')) ''getgrass_io''
     = (Inl (TypeError ''Failed to fetch'') :: js_error + nat)"
proof -
  let ?bad = "\<lparr>ok = False, json = Inr (7::nat)\<rparr>"
  let ?good = "\<lparr>ok = True, json = Inr (7::nat)\<rparr>"
  from api_client_outcome[of "\<lambda>req. Inr ?bad" "''getgrass_io''" ?bad]
  have "getUserTweets (\<lambda>req. Inr ?bad) ''getgrass_io'' = Inl (Error ''Failed to fetch user tweets'')"
    and "getWeeklyAnalysis (\<lambda>req. Inr ?bad) ''getgrass_io''
           = Inl (Error ''Failed to fetch weekly analysis'')"
    by simp_all
  moreover from api_client_outcome[of "\<lambda>req. Inr ?good" "''getgrass_io''" ?good]
  have "getSentimentReports (\<lambda>req. Inr ?good) ''getgrass_io'' = Inr 7"
    and "analyzeTweets (\<lambda>req. Inr ?good) ''getgrass_io'' = Inr 7"
    by simp_all
  moreover from api_client_outcome[of
      "\<lambda>req. (Inl (TypeError ''Failed to fetch'') :: js_error + nat response)"
      "''getgrass_io''" _ "TypeError ''Failed to fetch''"]
  have "analyzeTweets (\<lambda>req. Inl (TypeError ''Failed to fetch'')) ''getgrass_io''
     = (Inl (TypeError ''Failed to fetch'') :: js_error + nat)"
    by simp
  ultimately show ?thesis by blast
qed

text \<open>
  C10, as stated, fails: the response is ok and the function throws all the same,
  because the body of the response is not JSON and \<^verbatim>\<open>response.json()\<close> rejects.
\<close>

theorem ok_response_throws_counterexample:
  "ok \<lparr>ok = True, json = (Inl (SyntaxError ''Unexpected token <'') :: js_error + nat)\<rparr>
   \<and> getSentimentReports
        (\<lambda>req. Inr \<lparr>ok = True, json = (Inl (SyntaxError ''Unexpected token <'') :: js_error + nat)\<rparr>)
        ''getgrass_io''
       = Inl (SyntaxError ''Unexpected token <'')"
  by (simp add: getSentimentReports_def)

end
